theory Spec2Isabelle
  imports Complex_Main "HOL-Library.Sublist"
begin

section \<open>JavaScript values used by the widget\<close>

text \<open>
  A value of type \<open>string | undefined\<close> is a \<open>string option\<close>, \<open>None\<close> being
  \<open>undefined\<close>. A string is falsy when it is \<open>undefined\<close> or empty; \<open>a || b\<close>
  is \<open>b\<close> when \<open>a\<close> is falsy and \<open>a\<close> otherwise.
\<close>

definition falsy :: "string option \<Rightarrow> bool" where
  "falsy v = (case v of None \<Rightarrow> True | Some s \<Rightarrow> s = [])"

definition js_or :: "string option \<Rightarrow> string option \<Rightarrow> string option" where
  "js_or a b = (if falsy a then b else a)"

text \<open>\<open>a || ""\<close>, which is always a string.\<close>

definition or_empty :: "string option \<Rightarrow> string" where
  "or_empty a = (case a of None \<Rightarrow> '''' | Some s \<Rightarrow> if s = [] then '''' else s)"

text \<open>String conversion inside a template literal: \<open>undefined\<close> prints as its name.\<close>

definition template_str :: "string option \<Rightarrow> string" where
  "template_str v = (case v of None \<Rightarrow> ''undefined'' | Some s \<Rightarrow> s)"

section \<open>Configuration module\<close>

text \<open>
  \<open>process.env\<close> (after \<open>dotenv.config()\<close> has merged the \<open>.env\<close> file into it) is an
  association list from variable names to strings; \<open>process.env[key]\<close> is \<open>map_of\<close>.
  A thrown \<open>Error\<close> is \<open>Inl\<close> of its message.
\<close>

type_synonym process_env = "(string \<times> string) list"

definition getEnv :: "process_env \<Rightarrow> string \<Rightarrow> string option \<Rightarrow> string + string" where
  "getEnv env key defaultValue =
     (let v = map_of env key in
      if falsy v \<and> defaultValue = None
      then Inl (''Environment variable '' @ key @ '' is not set'')
      else Inr (or_empty (js_or v defaultValue)))"

text \<open>
  The exported object. Its two inner objects are association lists from property names
  to strings, so that reading a property the literal does not define yields
  \<open>undefined\<close>, as in JavaScript. Evaluating the module throws when \<open>getEnv\<close> throws.
\<close>

record Environment =
  mapbox :: "(string \<times> string) list"
  garmin :: "(string \<times> string) list"

definition environment :: "process_env \<Rightarrow> string + Environment" where
  "environment env =
     (case getEnv env ''MAPBOX_TOKEN'' None of
        Inl e \<Rightarrow> Inl e
      | Inr token \<Rightarrow>
          (case getEnv env ''GARMIN_MAPSHARE_URL'' (Some ''https://share.garmin.com/feed/share'') of
             Inl e \<Rightarrow> Inl e
           | Inr url \<Rightarrow>
               Inr \<lparr> mapbox = [(''token'', token)],
                     garmin = [(''mapshareBaseUrl'', url)] \<rparr>))"

section \<open>Strings and numbers of the host language\<close>

text \<open>
  \<open>String.prototype.trim\<close> and \<open>Number\<close> strip white space and line terminators at
  both ends. Characters are the Latin-1 range, so the white space is TAB, LF, VT, FF,
  CR, SP and NBSP.
\<close>

definition isWhiteSpace :: "char \<Rightarrow> bool" where
  "isWhiteSpace c = (of_char c \<in> {9, 10, 11, 12, 13, 32, 160 :: nat})"

definition trim :: "string \<Rightarrow> string" where
  "trim s = rev (dropWhile isWhiteSpace (rev (dropWhile isWhiteSpace s)))"

text \<open>
  \<open>s.split(sep)\<close> for a one-character separator: the pieces between the separators,
  always at least one piece.
\<close>

fun split :: "char \<Rightarrow> string \<Rightarrow> string list" where
  "split sep [] = [[]]"
| "split sep (c # cs) =
     (if c = sep then [] # split sep cs
      else (case split sep cs of
              [] \<Rightarrow> [[c]]
            | w # ws \<Rightarrow> (c # w) # ws))"

text \<open>
  A JavaScript number is \<open>NaN\<close>, an infinity, or a finite value. Finite values are
  kept as exact rationals: the rounding of a decimal literal to the nearest double and
  the sign of zero are not represented.
\<close>

datatype jsnum = NaN | PosInfinity | NegInfinity | Fin rat

definition negate :: "jsnum \<Rightarrow> jsnum" where
  "negate n = (case n of NaN \<Rightarrow> NaN | PosInfinity \<Rightarrow> NegInfinity
                 | NegInfinity \<Rightarrow> PosInfinity | Fin q \<Rightarrow> Fin (- q))"

definition digit_of :: "char \<Rightarrow> nat option" where
  "digit_of c =
     (let n = (of_char c :: nat) in
      if 48 \<le> n \<and> n \<le> 57 then Some (n - 48)
      else if 97 \<le> n \<and> n \<le> 102 then Some (n - 87)
      else if 65 \<le> n \<and> n \<le> 70 then Some (n - 55)
      else None)"

definition isDigit :: "nat \<Rightarrow> char \<Rightarrow> bool" where
  "isDigit base c = (case digit_of c of None \<Rightarrow> False | Some d \<Rightarrow> d < base)"

definition digits_value :: "nat \<Rightarrow> string \<Rightarrow> nat" where
  "digits_value base ds =
     foldl (\<lambda>acc c. acc * base + (case digit_of c of None \<Rightarrow> 0 | Some d \<Rightarrow> d)) 0 ds"

text \<open>\<open>SignedInteger\<close> of an exponent part: digits with an optional sign.\<close>

definition signed_integer :: "string \<Rightarrow> int option" where
  "signed_integer s =
     (let (neg, ds) = (case s of
                         c # r \<Rightarrow> if c = CHR ''-'' then (True, r)
                                  else if c = CHR ''+'' then (False, r) else (False, s)
                       | [] \<Rightarrow> (False, s))
      in if ds = [] \<or> \<not> list_all (isDigit 10) ds then None
         else Some (if neg then - int (digits_value 10 ds) else int (digits_value 10 ds)))"

definition exponent_part :: "string \<Rightarrow> int option" where
  "exponent_part s =
     (case s of
        [] \<Rightarrow> Some 0
      | c # r \<Rightarrow> if c = CHR ''e'' \<or> c = CHR ''E'' then signed_integer r else None)"

definition scale10 :: "nat \<Rightarrow> int \<Rightarrow> rat" where
  "scale10 m e = (if 0 \<le> e then of_nat m * 10 ^ nat e else of_nat m / 10 ^ nat (- e))"

text \<open>
  \<open>StrUnsignedDecimalLiteral\<close>: \<open>Infinity\<close>, or digits with an optional fraction and an
  optional exponent, at least one digit before or after the point.
\<close>

definition unsigned_decimal :: "string \<Rightarrow> jsnum" where
  "unsigned_decimal s =
     (if s = ''Infinity'' then PosInfinity
      else
        let ip = takeWhile (isDigit 10) s;
            r1 = dropWhile (isDigit 10) s;
            (fp, r2) = (case r1 of
                          [] \<Rightarrow> ([], r1)
                        | c # r \<Rightarrow> if c = CHR ''.''
                                   then (takeWhile (isDigit 10) r, dropWhile (isDigit 10) r)
                                   else ([], r1))
        in if ip = [] \<and> fp = [] then NaN
           else (case exponent_part r2 of
                   None \<Rightarrow> NaN
                 | Some e \<Rightarrow> Fin (scale10 (digits_value 10 (ip @ fp)) (e - int (length fp)))))"

text \<open>\<open>NonDecimalIntegerLiteral\<close>: \<open>0x\<close>, \<open>0o\<close> or \<open>0b\<close> and digits of that base, unsigned.\<close>

definition non_decimal :: "string \<Rightarrow> nat option" where
  "non_decimal s =
     (case s of
        z # x # ds \<Rightarrow>
          (let base = (if x = CHR ''x'' \<or> x = CHR ''X'' then 16
                       else if x = CHR ''o'' \<or> x = CHR ''O'' then 8
                       else if x = CHR ''b'' \<or> x = CHR ''B'' then 2 else (0::nat))
           in if z = CHR ''0'' \<and> base \<noteq> 0 \<and> ds \<noteq> [] \<and> list_all (isDigit base) ds
              then Some (digits_value base ds) else None)
      | _ \<Rightarrow> None)"

text \<open>
  \<open>Number(s)\<close> on a string (\<open>StringToNumber\<close>): the empty or all-blank string is \<open>0\<close>,
  a string that is no numeric literal is \<open>NaN\<close>.
\<close>

definition Number :: "string \<Rightarrow> jsnum" where
  "Number s =
     (let t = trim s in
      if t = [] then Fin 0
      else (case non_decimal t of
              Some n \<Rightarrow> Fin (of_nat n)
            | None \<Rightarrow>
                (case t of
                   [] \<Rightarrow> Fin 0
                 | c # r \<Rightarrow> if c = CHR ''+'' then unsigned_decimal r
                            else if c = CHR ''-'' then negate (unsigned_decimal r)
                            else unsigned_decimal t)))"

text \<open>
  The global \<open>isNaN\<close> converts its argument to a number first, and \<open>undefined\<close>
  converts to \<open>NaN\<close>. Its argument here is an element of a destructured array, which is
  \<open>undefined\<close> (\<open>None\<close>) when the array is too short.
\<close>

definition isNaN :: "jsnum option \<Rightarrow> bool" where
  "isNaN v = (case v of None \<Rightarrow> True | Some n \<Rightarrow> n = NaN)"

definition element_at :: "'a list \<Rightarrow> nat \<Rightarrow> 'a option" where
  "element_at xs i = (if i < length xs then Some (xs ! i) else None)"

text \<open>
  A \<open>Date\<close> object holds a time value in milliseconds since the epoch, or is an
  invalid date when its time value is \<open>NaN\<close>.
\<close>

datatype jsdate = InvalidDate | DateAt int

section \<open>The parsed feed document\<close>

text \<open>
  An XML document is the tree of its root element; only element names, nesting and
  text matter to the widget. An element handle is the element together with the names
  of its ancestors, nearest first, because a selector with a descendant combinator is
  matched against the whole document and not only below the element queried.
\<close>

datatype node = Element string "node list" | Text string

type_synonym element = "string list \<times> node"

fun elements_of :: "string list \<Rightarrow> node \<Rightarrow> element list" where
  "elements_of anc (Text t) = []"
| "elements_of anc (Element tag kids) =
     (anc, Element tag kids) # concat (map (elements_of (tag # anc)) kids)"

text \<open>The elements below an element handle, in document order, itself excluded.\<close>

fun descendants :: "element \<Rightarrow> element list" where
  "descendants (anc, Text t) = []"
| "descendants (anc, Element tag kids) = concat (map (elements_of (tag # anc)) kids)"

fun tagName :: "element \<Rightarrow> string" where
  "tagName (anc, Text t) = []"
| "tagName (anc, Element tag kids) = tag"

fun textContent_node :: "node \<Rightarrow> string" where
  "textContent_node (Text t) = t"
| "textContent_node (Element tag kids) = concat (map textContent_node kids)"

definition textContent :: "element \<Rightarrow> string" where
  "textContent el = textContent_node (snd el)"

text \<open>
  The selectors of the widget are type selectors joined by the descendant combinator
  (\<open>Placemark\<close>, \<open>coordinates\<close>, \<open>TimeStamp when\<close>). \<open>has_ancestors ts anc\<close>: the names
  \<open>ts\<close> (innermost first) occur in this order among the ancestors \<open>anc\<close>.
\<close>

fun has_ancestors :: "string list \<Rightarrow> string list \<Rightarrow> bool" where
  "has_ancestors [] anc = True"
| "has_ancestors (t # ts) [] = False"
| "has_ancestors (t # ts) (a # anc) =
     (if a = t then has_ancestors ts anc else has_ancestors (t # ts) anc)"

definition selector_parts :: "string \<Rightarrow> string list" where
  "selector_parts sel = filter (\<lambda>w. w \<noteq> []) (split CHR '' '' sel)"

definition matches :: "string \<Rightarrow> element \<Rightarrow> bool" where
  "matches sel el =
     (case rev (selector_parts sel) of
        [] \<Rightarrow> False
      | t # ts \<Rightarrow> tagName el = t \<and> has_ancestors ts (fst el))"

text \<open>\<open>document.querySelector\<close> and \<open>element.querySelector\<close>: the first match in document order.\<close>

definition querySelector_document :: "node \<Rightarrow> string \<Rightarrow> element option" where
  "querySelector_document doc sel = find (matches sel) (elements_of [] doc)"

definition querySelector :: "element \<Rightarrow> string \<Rightarrow> element option" where
  "querySelector el sel = find (matches sel) (descendants el)"

section \<open>What the browser answers during one tick\<close>

text \<open>
  \<open>fetch_url\<close> is the outcome of \<open>fetch\<close> followed by \<open>response.text()\<close>: \<open>Inl\<close> is a
  rejected promise, with the message of its \<open>Error\<close>. \<open>parseFromString\<close> is
  \<open>DOMParser.parseFromString(_, "text/xml")\<close>. \<open>Date_parse\<close> is \<open>Date.parse\<close>, whose
  result is \<open>None\<close> when the string is not recognised (a \<open>NaN\<close> time value); which
  strings beyond ISO 8601 are recognised is left to the browser.
\<close>

record response =
  ok :: bool
  text_body :: string

record browser =
  fetch_url :: "string \<Rightarrow> string + response"
  parseFromString :: "string \<Rightarrow> node"
  Date_parse :: "string \<Rightarrow> int option"

definition new_Date :: "browser \<Rightarrow> string \<Rightarrow> jsdate" where
  "new_Date b s = (case Date_parse b s of None \<Rightarrow> InvalidDate | Some t \<Rightarrow> DateAt t)"

section \<open>Component state and the map\<close>

type_synonym lnglat = "jsnum \<times> jsnum"

record Location =
  lat :: jsnum
  lng :: jsnum
  timestamp :: "jsdate option"

record Route =
  name :: string
  coordinates :: "lnglat list"

text \<open>
  Modelled from the spec: the mapping library, which is not part of the repository.
  A map has a viewport centre and named GeoJSON line sources, each a list of
  (longitude, latitude) pairs; \<open>setCenter\<close> re-centres the viewport, \<open>getSource\<close> finds a
  source by name, \<open>getData\<close> reads its coordinate list and \<open>setData\<close> writes it
  back; assigning a marker its position and calling its \<open>update\<close> repositions the
  marker. The calls return normally.
\<close>

record mapbox_map =
  center :: lnglat
  zoom :: nat
  sources :: "(string \<times> lnglat list) list"
  layers :: "string list"

definition setCenter :: "lnglat \<Rightarrow> mapbox_map \<Rightarrow> mapbox_map" where
  "setCenter c m = m\<lparr>center := c\<rparr>"

definition getSource :: "mapbox_map \<Rightarrow> string \<Rightarrow> lnglat list option" where
  "getSource m sid = map_of (sources m) sid"

definition setData :: "string \<Rightarrow> lnglat list \<Rightarrow> mapbox_map \<Rightarrow> mapbox_map" where
  "setData sid cs m =
     m\<lparr>sources := map (\<lambda>(k, v). if k = sid then (k, cs) else (k, v)) (sources m)\<rparr>"

definition addSource :: "string \<Rightarrow> lnglat list \<Rightarrow> mapbox_map \<Rightarrow> mapbox_map" where
  "addSource sid cs m = m\<lparr>sources := sources m @ [(sid, cs)]\<rparr>"

definition addLayer :: "string \<Rightarrow> mapbox_map \<Rightarrow> mapbox_map" where
  "addLayer lid m = m\<lparr>layers := layers m @ [lid]\<rparr>"

text \<open>
  The state of the component: its six React state variables, and the parts of the page
  its callbacks act on. The map handle holds the map object; \<open>markers\<close> are the
  elements of class \<open>mapboxgl-marker\<close> in document order, each with its position;
  \<open>requests\<close> are the URLs fetched so far and \<open>console\<close> the messages logged.
\<close>

record app =
  currentLocation :: Location
  plannedRoute :: "Route option"
  mapLoaded :: bool
  map_handle :: "mapbox_map option"
  isTracking :: bool
  error :: "string option"
  markers :: "lnglat list"
  requests :: "string list"
  console :: "string list"

definition initial_location :: Location where
  "initial_location = \<lparr> lat = Fin 0, lng = Fin 0, timestamp = None \<rparr>"

definition initial_app :: app where
  "initial_app =
     \<lparr> currentLocation = initial_location, plannedRoute = None, mapLoaded = False,
       map_handle = None, isTracking = False, error = None,
       markers = [], requests = [], console = [] \<rparr>"

text \<open>
  The \<open>load\<close> callback registered by \<open>initializeMap\<close> on the map it has just created
  (centre \<open>[-74.5, 40]\<close>, zoom 9): it stores the handle, adds the two sources with
  empty lines and their layers, and adds the marker. The callback closes over the
  first render, so the marker starts at the initial location.
\<close>

definition new_Map :: mapbox_map where
  "new_Map = \<lparr> center = (Fin (- 149 / 2), Fin 40), zoom = 9, sources = [], layers = [] \<rparr>"

definition on_load :: "app \<Rightarrow> app" where
  "on_load s =
     (let mapInstance =
            addLayer ''tracking-history''
              (addLayer ''route''
                (addSource ''tracking-history'' []
                  (addSource ''route'' [] new_Map)))
      in s\<lparr> mapLoaded := True,
             map_handle := Some mapInstance,
             markers := markers s @ [(lng initial_location, lat initial_location)] \<rparr>)"

section \<open>One tick: \<open>fetchGarminLocation\<close>\<close>

text \<open>
  The block guarded by \<open>if (map)\<close>: re-centre, move the first marker if there is one,
  and append the point to the \<open>tracking-history\<close> source if there is one.
\<close>

definition update_map :: "jsnum \<Rightarrow> jsnum \<Rightarrow> app \<Rightarrow> app" where
  "update_map lng' lat' s =
     (case map_handle s of
        None \<Rightarrow> s
      | Some m \<Rightarrow>
          (let m1 = setCenter (lng', lat') m;
               markers' = (case markers s of
                             [] \<Rightarrow> []
                           | mk # rest \<Rightarrow> (lng', lat') # rest);
               m2 = (case getSource m1 ''tracking-history'' of
                       None \<Rightarrow> m1
                     | Some existingData \<Rightarrow>
                         setData ''tracking-history'' (existingData @ [(lng', lat')]) m1)
           in s\<lparr> map_handle := Some m2, markers := markers' \<rparr>))"

text \<open>
  The URL fetched, \<open>`${MAPSHARE_BASE_URL}/${mapshareId}/kml`\<close>, where the constant
  \<open>MAPSHARE_BASE_URL\<close> is \<open>environment.garmin.mapshareBaseUrl\<close>.
\<close>

definition feed_url :: "Environment \<Rightarrow> string \<Rightarrow> string" where
  "feed_url env mapshareId =
     (let MAPSHARE_BASE_URL = map_of (garmin env) ''mapshareBaseUrl''
      in template_str MAPSHARE_BASE_URL @ ''/'' @ mapshareId @ ''/kml'')"

text \<open>
  The body of the \<open>try\<close> block (lines 72 to 127 of \<open>App.tsx\<close>). The result is the
  message of the \<open>Error\<close> thrown (\<open>None\<close> when the block completes) and the state
  reached at that point. Every value thrown is an \<open>Error\<close>: the four \<open>throw\<close> statements
  make one, and a rejected \<open>fetch\<close> carries one. The array destructured into
  \<open>[lng, lat]\<close> may be too short, which leaves \<open>lat\<close> undefined; past the \<open>isNaN\<close>
  test both are numbers, so the last case of the inner distinction is never taken.
\<close>

definition fetchGarminLocation_try ::
    "Environment \<Rightarrow> browser \<Rightarrow> string \<Rightarrow> app \<Rightarrow> string option \<times> app" where
  "fetchGarminLocation_try env b mapshareId s =
     (let url = feed_url env mapshareId;
          s1 = s\<lparr> requests := requests s @ [url] \<rparr>
      in case fetch_url b url of
           Inl message \<Rightarrow> (Some message, s1)
         | Inr response \<Rightarrow>
             if \<not> ok response then (Some ''Failed to fetch location data'', s1)
             else
               (let kmlDoc = parseFromString b (text_body response)
                in case querySelector_document kmlDoc ''Placemark'' of
                     None \<Rightarrow> (Some ''No location data found'', s1)
                   | Some placemark \<Rightarrow>
                       (case (querySelector placemark ''coordinates'',
                              querySelector placemark ''TimeStamp when'') of
                          (Some coordinatesElement, Some timestampElement) \<Rightarrow>
                            (let coords = trim (textContent coordinatesElement);
                                 nums = map Number (split CHR '','' coords);
                                 lng' = element_at nums 0;
                                 lat' = element_at nums 1;
                                 timestamp' = new_Date b (textContent timestampElement)
                             in if isNaN lat' \<or> isNaN lng'
                                then (Some ''Invalid coordinates in KML'', s1)
                                else
                                  (case (lng', lat') of
                                     (Some x, Some y) \<Rightarrow>
                                       (None,
                                        update_map x y
                                          (s1\<lparr> currentLocation :=
                                                  \<lparr> lat = y, lng = x,
                                                    timestamp = Some timestamp' \<rparr>,
                                                error := None \<rparr>))
                                   | _ \<Rightarrow> (Some ''Invalid coordinates in KML'', s1)))
                        | _ \<Rightarrow> (Some ''Invalid KML data structure'', s1))))"

text \<open>
  The whole callback (lines 63 to 134): the configuration check, then the \<open>try\<close>
  block with its \<open>catch\<close>, which logs the error and shows its message. The
  configuration object is an argument, so that the callback is described for every
  configuration, with or without a feed identifier.
\<close>

definition fetchGarminLocation :: "Environment \<Rightarrow> browser \<Rightarrow> app \<Rightarrow> app" where
  "fetchGarminLocation env b s =
     (let mapshareId = map_of (garmin env) ''mapshareId''
      in if falsy mapshareId
         then s\<lparr> error := Some ''MapShare ID not configured in environment'' \<rparr>
         else
           (case fetchGarminLocation_try env b (template_str mapshareId) s of
              (None, s') \<Rightarrow> s'
            | (Some message, s') \<Rightarrow>
                s'\<lparr> console := console s' @ [''Error fetching Garmin location: '' @ message],
                     error := Some (''Failed to fetch location: '' @ message) \<rparr>))"

section \<open>The sync loop\<close>

text \<open>
  Modelled from the spec: the repeating timer, whose effect is elided from the
  component's source. While tracking, every scheduled tick calls \<open>fetchGarminLocation\<close>;
  a failed tick does not stop the loop. A run is the list of what the browser answers
  at each tick.
\<close>

fun sync_loop :: "Environment \<Rightarrow> browser list \<Rightarrow> app \<Rightarrow> app" where
  "sync_loop env [] s = s"
| "sync_loop env (b # bs) s = sync_loop env bs (fetchGarminLocation env b s)"


text \<open>The coordinate list of a line source of the map, empty while there is none.\<close>

definition line_of :: "string \<Rightarrow> app \<Rightarrow> lnglat list" where
  "line_of sid s =
     (case map_handle s of
        None \<Rightarrow> []
      | Some m \<Rightarrow> (case getSource m sid of None \<Rightarrow> [] | Some cs \<Rightarrow> cs))"

definition tracking_history :: "app \<Rightarrow> lnglat list" where
  "tracking_history s = line_of ''tracking-history'' s"

text \<open>The map is ready: the handle is set and the map has its \<open>tracking-history\<close> source.\<close>

definition map_ready :: "app \<Rightarrow> bool" where
  "map_ready s =
     (case map_handle s of
        None \<Rightarrow> False
      | Some m \<Rightarrow> getSource m ''tracking-history'' \<noteq> None)"

section \<open>Concrete configurations, feeds and browsers\<close>

text \<open>
  A configuration object that does carry a feed identifier, and browsers that answer
  every fetch with a given body, parse that body to a given document, and recognise
  one ISO 8601 instant (2024-01-01T00:00:00Z is 1704067200000 ms after the epoch).
\<close>

definition configured :: Environment where
  "configured =
     \<lparr> mapbox = [(''token'', ''pk.test'')],
       garmin = [(''mapshareBaseUrl'', ''https://share.garmin.com/feed/share''),
                 (''mapshareId'', ''hiker'')] \<rparr>"

definition serving :: "string \<Rightarrow> node \<Rightarrow> browser" where
  "serving body doc =
     \<lparr> fetch_url = (\<lambda>url. Inr \<lparr> ok = True, text_body = body \<rparr>),
       parseFromString = (\<lambda>t. if t = body then doc else Element ''parsererror'' []),
       Date_parse = (\<lambda>t. if t = ''2024-01-01T00:00:00Z'' then Some 1704067200000 else None) \<rparr>"

definition placemark_doc :: "string \<Rightarrow> string \<Rightarrow> node" where
  "placemark_doc coords when' =
     Element ''Placemark''
       [Element ''coordinates'' [Text coords],
        Element ''TimeStamp'' [Element ''when'' [Text when']]]"

definition placemark_body :: "string \<Rightarrow> string \<Rightarrow> string" where
  "placemark_body coords when' =
     ''<Placemark><coordinates>'' @ coords @ ''</coordinates><TimeStamp><when>'' @ when'
       @ ''</when></TimeStamp></Placemark>''"

definition feed :: "string \<Rightarrow> string \<Rightarrow> browser" where
  "feed coords when' = serving (placemark_body coords when') (placemark_doc coords when')"

definition spec_example :: browser where
  "spec_example = feed ''-74.5,40.1,0'' ''2024-01-01T00:00:00Z''"

text \<open>A run of three ticks, the second with a non-numeric longitude.\<close>

definition mixed_run :: "browser list" where
  "mixed_run = [spec_example, feed ''abc,12.3'' ''2024-01-01T00:00:00Z'', spec_example]"

text \<open>
  A feed whose \<open>Placemark\<close> lies inside a \<open>TimeStamp\<close> element and holds its \<open>when\<close>
  element directly.
\<close>

definition nested_feed :: browser where
  "nested_feed =
     serving ''<TimeStamp><Placemark><coordinates>1.0,2.0</coordinates><when>2024-01-01T00:00:00Z</when></Placemark></TimeStamp>''
       (Element ''TimeStamp''
          [Element ''Placemark''
             [Element ''coordinates'' [Text ''1.0,2.0''],
              Element ''when'' [Text ''2024-01-01T00:00:00Z'']]])"

section \<open>The map operations and the guarded block\<close>

lemma map_of_setData_same:
  "map_of (map (\<lambda>(a, v). if a = k then (a, cs) else (a, v)) xs) k =
     (case map_of xs k of None \<Rightarrow> None | Some v \<Rightarrow> Some cs)"
  by (induction xs) auto

lemma map_of_setData_other:
  "k' \<noteq> k \<Longrightarrow> map_of (map (\<lambda>(a, v). if a = k then (a, cs) else (a, v)) xs) k' = map_of xs k'"
  by (induction xs) auto

lemma getSource_setData:
  "getSource (setData sid cs m) sid' =
     (if sid' = sid then (case getSource m sid of None \<Rightarrow> None | Some v \<Rightarrow> Some cs)
      else getSource m sid')"
  by (simp add: getSource_def setData_def map_of_setData_same map_of_setData_other)

lemma getSource_setCenter: "getSource (setCenter c m) sid = getSource m sid"
  by (simp add: getSource_def setCenter_def)

lemma update_map_fields:
  "currentLocation (update_map x y s) = currentLocation s"
  "error (update_map x y s) = error s"
  "requests (update_map x y s) = requests s"
  "console (update_map x y s) = console s"
  "plannedRoute (update_map x y s) = plannedRoute s"
  "isTracking (update_map x y s) = isTracking s"
  "mapLoaded (update_map x y s) = mapLoaded s"
  by (simp_all add: update_map_def Let_def split: option.splits)

lemma update_map_no_handle: "map_handle s = None \<Longrightarrow> update_map x y s = s"
  by (simp add: update_map_def)

lemma map_ready_update_map: "map_ready (update_map x y s) = map_ready s"
  by (simp add: update_map_def map_ready_def Let_def getSource_setData getSource_setCenter
      split: option.splits)


lemma line_of_cong:
  "map_handle s' = map_handle s \<Longrightarrow> line_of sid s' = line_of sid s"
  by (simp add: line_of_def)

lemma map_ready_cong:
  "map_handle s' = map_handle s \<Longrightarrow> map_ready s' = map_ready s"
  by (simp add: map_ready_def)

lemma try_outcome:
  assumes "fetchGarminLocation_try env b mid s = (r, s')"
  shows "(\<exists>msg. r = Some msg \<and> s' = s\<lparr>requests := requests s @ [feed_url env mid]\<rparr>)
       \<or> (\<exists>x y t. r = None \<and> x \<noteq> NaN \<and> y \<noteq> NaN \<and>
            s' = update_map x y
                   (s\<lparr>requests := requests s @ [feed_url env mid],
                      currentLocation := \<lparr>lat = y, lng = x, timestamp = Some t\<rparr>,
                      error := None\<rparr>))"
  using assms
  by (auto simp: fetchGarminLocation_try_def Let_def isNaN_def
      split: sum.splits if_splits option.splits prod.splits)

section \<open>The three outcomes of a tick\<close>

text \<open>
  A tick ends in one of three ways: the configuration check fails; the \<open>try\<close> block
  throws after the request was made, and the \<open>catch\<close> shows the message; or the block
  completes, having stored a location without \<open>NaN\<close> and run the guarded map block.
\<close>

lemma tick_unconfigured:
  "falsy (map_of (garmin env) ''mapshareId'') \<Longrightarrow>
     fetchGarminLocation env b s = s\<lparr>error := Some ''MapShare ID not configured in environment''\<rparr>"
  by (simp add: fetchGarminLocation_def)

lemma tick_thrown:
  "\<not> falsy (map_of (garmin env) ''mapshareId'') \<Longrightarrow>
   fetchGarminLocation_try env b (template_str (map_of (garmin env) ''mapshareId'')) s = (Some msg, s') \<Longrightarrow>
     fetchGarminLocation env b s =
       s'\<lparr>console := console s' @ [''Error fetching Garmin location: '' @ msg],
          error := Some (''Failed to fetch location: '' @ msg)\<rparr>"
  by (simp add: fetchGarminLocation_def)

lemma tick_completed:
  "\<not> falsy (map_of (garmin env) ''mapshareId'') \<Longrightarrow>
   fetchGarminLocation_try env b (template_str (map_of (garmin env) ''mapshareId'')) s = (None, s') \<Longrightarrow>
     fetchGarminLocation env b s = s'"
  by (simp add: fetchGarminLocation_def)


lemma tick_cases [case_names unconfigured thrown completed]:
  obtains
    "fetchGarminLocation env b s =
       s\<lparr>error := Some ''MapShare ID not configured in environment''\<rparr>"
  | mid msg where
    "fetchGarminLocation env b s =
       s\<lparr>requests := requests s @ [feed_url env mid],
         console := console s @ [''Error fetching Garmin location: '' @ msg],
         error := Some (''Failed to fetch location: '' @ msg)\<rparr>"
  | mid x y t where "x \<noteq> NaN" "y \<noteq> NaN"
    "fetchGarminLocation env b s =
       update_map x y
         (s\<lparr>requests := requests s @ [feed_url env mid],
            currentLocation := \<lparr>lat = y, lng = x, timestamp = Some t\<rparr>,
            error := None\<rparr>)"
proof (cases "falsy (map_of (garmin env) ''mapshareId'')")
  case True
  then show ?thesis using that(1) by (simp add: tick_unconfigured)
next
  case False
  let ?mid = "template_str (map_of (garmin env) ''mapshareId'')"
  obtain r s' where tried: "fetchGarminLocation_try env b ?mid s = (r, s')"
    by (cases "fetchGarminLocation_try env b ?mid s")
  from try_outcome [OF tried] show ?thesis
  proof
    assume "\<exists>msg. r = Some msg \<and> s' = s\<lparr>requests := requests s @ [feed_url env ?mid]\<rparr>"
    then obtain msg where r: "r = Some msg"
      and s': "s' = s\<lparr>requests := requests s @ [feed_url env ?mid]\<rparr>" by blast
    have "fetchGarminLocation env b s =
            s\<lparr>requests := requests s @ [feed_url env ?mid],
              console := console s @ [''Error fetching Garmin location: '' @ msg],
              error := Some (''Failed to fetch location: '' @ msg)\<rparr>"
      using tick_thrown [OF False tried [unfolded r]] by (simp add: s')
    then show ?thesis by (rule that(2))
  next
    assume "\<exists>x y t. r = None \<and> x \<noteq> NaN \<and> y \<noteq> NaN \<and>
            s' = update_map x y
                   (s\<lparr>requests := requests s @ [feed_url env ?mid],
                      currentLocation := \<lparr>lat = y, lng = x, timestamp = Some t\<rparr>,
                      error := None\<rparr>)"
    then obtain x y t where r: "r = None" and xy: "x \<noteq> NaN" "y \<noteq> NaN"
      and s': "s' = update_map x y
                   (s\<lparr>requests := requests s @ [feed_url env ?mid],
                      currentLocation := \<lparr>lat = y, lng = x, timestamp = Some t\<rparr>,
                      error := None\<rparr>)" by blast
    have "fetchGarminLocation env b s = s'"
      using tick_completed [OF False tried [unfolded r]] .
    with xy s' show ?thesis using that(3) by blast
  qed
qed

lemma tick_failed:
  assumes "error (fetchGarminLocation env b s) \<noteq> None"
  shows "map_handle (fetchGarminLocation env b s) = map_handle s
       \<and> markers (fetchGarminLocation env b s) = markers s
       \<and> currentLocation (fetchGarminLocation env b s) = currentLocation s"
proof (cases rule: tick_cases [of env b s])
  case unconfigured
  then show ?thesis by simp
next
  case (thrown mid msg)
  then show ?thesis by simp
next
  case (completed mid x y t)
  with assms show ?thesis by (simp add: update_map_fields)
qed


lemma tick_ready: "map_ready (fetchGarminLocation env b s) = map_ready s"
proof (cases rule: tick_cases [of env b s])
  case unconfigured
  then show ?thesis by (simp add: map_ready_def)
next
  case (thrown mid msg)
  then show ?thesis by (simp add: map_ready_def)
next
  case (completed mid x y t)
  then show ?thesis by (simp add: map_ready_update_map) (simp add: map_ready_def)
qed



section \<open>Ticks that complete and ticks that throw\<close>

lemma try_success:
  assumes "fetch_url b (feed_url env mid) = Inr r" "ok r"
    and "querySelector_document (parseFromString b (text_body r)) ''Placemark'' = Some placemark"
    and "querySelector placemark ''coordinates'' = Some coordinatesElement"
    and "querySelector placemark ''TimeStamp when'' = Some timestampElement"
    and "split CHR '','' (trim (textContent coordinatesElement)) = lon # la # rest"
    and "Number lon \<noteq> NaN" "Number la \<noteq> NaN"
  shows "fetchGarminLocation_try env b mid s =
           (None,
            update_map (Number lon) (Number la)
              (s\<lparr>requests := requests s @ [feed_url env mid],
                 currentLocation :=
                   \<lparr>lat = Number la, lng = Number lon,
                     timestamp = Some (new_Date b (textContent timestampElement))\<rparr>,
                 error := None\<rparr>))"
  using assms
  by (simp add: fetchGarminLocation_try_def Let_def isNaN_def element_at_def)

lemma tick_success:
  assumes "map_of (garmin env) ''mapshareId'' = Some mid" "mid \<noteq> []"
    and "fetch_url b (feed_url env mid) = Inr r" "ok r"
    and "querySelector_document (parseFromString b (text_body r)) ''Placemark'' = Some placemark"
    and "querySelector placemark ''coordinates'' = Some coordinatesElement"
    and "querySelector placemark ''TimeStamp when'' = Some timestampElement"
    and "split CHR '','' (trim (textContent coordinatesElement)) = lon # la # rest"
    and "Number lon \<noteq> NaN" "Number la \<noteq> NaN"
  shows "fetchGarminLocation env b s =
           update_map (Number lon) (Number la)
             (s\<lparr>requests := requests s @ [feed_url env mid],
                currentLocation :=
                  \<lparr>lat = Number la, lng = Number lon,
                    timestamp = Some (new_Date b (textContent timestampElement))\<rparr>,
                error := None\<rparr>)"
proof -
  have cfg: "\<not> falsy (map_of (garmin env) ''mapshareId'')"
    and mid: "template_str (map_of (garmin env) ''mapshareId'') = mid"
    using assms(1,2) by (simp_all add: falsy_def template_str_def)
  show ?thesis
    using tick_completed [OF cfg, of b s] try_success [OF assms(3-10), of s]
    by (simp add: mid)
qed

lemma tick_throws:
  assumes "map_of (garmin env) ''mapshareId'' = Some mid" "mid \<noteq> []"
    and "fetchGarminLocation_try env b mid s = (Some msg, s')"
  shows "fetchGarminLocation env b s =
           s'\<lparr>console := console s' @ [''Error fetching Garmin location: '' @ msg],
              error := Some (''Failed to fetch location: '' @ msg)\<rparr>"
proof -
  have cfg: "\<not> falsy (map_of (garmin env) ''mapshareId'')"
    and mid: "template_str (map_of (garmin env) ''mapshareId'') = mid"
    using assms(1,2) by (simp_all add: falsy_def template_str_def)
  show ?thesis
    using tick_thrown [OF cfg, of b s msg s'] assms(3) by (simp add: mid)
qed

section \<open>Runs of the loop\<close>


lemma run_ready: "map_ready (sync_loop env bs s) = map_ready s"
  by (induction bs arbitrary: s) (simp_all add: tick_ready)




lemma run_unconfigured:
  "falsy (map_of (garmin env) ''mapshareId'') \<Longrightarrow>
     requests (sync_loop env bs s) = requests s"
  by (induction bs arbitrary: s) (simp_all add: tick_unconfigured)

lemma environment_garmin:
  "environment penv = Inr cfg \<Longrightarrow> \<exists>url. garmin cfg = [(''mapshareBaseUrl'', url)]"
  by (auto simp: environment_def split: sum.splits)



section \<open>The configuration resolver, case by case\<close>

lemma getEnv_eq:
  "getEnv env key d =
     (if falsy (map_of env key)
      then (case d of
              None \<Rightarrow> Inl (''Environment variable '' @ key @ '' is not set'')
            | Some dv \<Rightarrow> Inr dv)
      else Inr (or_empty (map_of env key)))"
  by (auto simp: getEnv_def falsy_def js_or_def or_empty_def Let_def split: option.splits)

section \<open>Selectors and the concrete feeds\<close>

lemma has_ancestors_single: "has_ancestors [t] anc = (t \<in> set anc)"
  by (induction anc) auto

lemma matches_coordinates: "matches ''coordinates'' el = (tagName el = ''coordinates'')"
  by (simp add: matches_def selector_parts_def)

lemma matches_Placemark: "matches ''Placemark'' el = (tagName el = ''Placemark'')"
  by (simp add: matches_def selector_parts_def)

lemma matches_TimeStamp_when:
  "matches ''TimeStamp when'' el = (tagName el = ''when'' \<and> ''TimeStamp'' \<in> set (fst el))"
  by (simp add: matches_def selector_parts_def has_ancestors_single)

lemma querySelector_None:
  "(querySelector el sel = None) = (\<forall>d \<in> set (descendants el). \<not> matches sel d)"
  by (auto simp: querySelector_def find_None_iff)

lemma feed_reaches:
  "fetch_url (feed coords w) url = Inr \<lparr>ok = True, text_body = placemark_body coords w\<rparr>"
  "querySelector_document (parseFromString (feed coords w) (placemark_body coords w)) ''Placemark''
     = Some ([], placemark_doc coords w)"
  "querySelector ([], placemark_doc coords w) ''coordinates''
     = Some ([''Placemark''], Element ''coordinates'' [Text coords])"
  "querySelector ([], placemark_doc coords w) ''TimeStamp when''
     = Some ([''TimeStamp'', ''Placemark''], Element ''when'' [Text w])"
  "textContent ([''Placemark''], Element ''coordinates'' [Text coords]) = coords"
  "textContent ([''TimeStamp'', ''Placemark''], Element ''when'' [Text w]) = w"
  by (simp_all add: feed_def serving_def placemark_doc_def querySelector_document_def
      querySelector_def matches_Placemark matches_coordinates matches_TimeStamp_when
      textContent_def)

lemma configured_id:
  "map_of (garmin configured) ''mapshareId'' = Some ''hiker''"
  "feed_url configured ''hiker'' = ''https://share.garmin.com/feed/share/hiker/kml''"
  by (simp_all add: configured_def feed_url_def template_str_def)

section \<open>Ticks that throw on the feed document\<close>

lemma try_invalid_coordinates:
  assumes "fetch_url b (feed_url env mid) = Inr r" "ok r"
    and "querySelector_document (parseFromString b (text_body r)) ''Placemark'' = Some placemark"
    and "querySelector placemark ''coordinates'' = Some coordinatesElement"
    and "querySelector placemark ''TimeStamp when'' = Some timestampElement"
    and "isNaN (element_at (map Number (split CHR '','' (trim (textContent coordinatesElement)))) 0)
       \<or> isNaN (element_at (map Number (split CHR '','' (trim (textContent coordinatesElement)))) 1)"
  shows "fetchGarminLocation_try env b mid s =
           (Some ''Invalid coordinates in KML'', s\<lparr>requests := requests s @ [feed_url env mid]\<rparr>)"
  using assms
  by (auto simp: fetchGarminLocation_try_def Let_def)

lemma try_invalid_structure:
  assumes "fetch_url b (feed_url env mid) = Inr r" "ok r"
    and "querySelector_document (parseFromString b (text_body r)) ''Placemark'' = Some placemark"
    and "querySelector placemark ''coordinates'' = None
       \<or> querySelector placemark ''TimeStamp when'' = None"
  shows "fetchGarminLocation_try env b mid s =
           (Some ''Invalid KML data structure'', s\<lparr>requests := requests s @ [feed_url env mid]\<rparr>)"
  using assms
  by (auto simp: fetchGarminLocation_try_def Let_def split: option.splits)




lemma tick_both_found:
  assumes "map_of (garmin env) ''mapshareId'' = Some mid" "mid \<noteq> []"
    and "fetch_url b (feed_url env mid) = Inr r" "ok r"
    and "querySelector_document (parseFromString b (text_body r)) ''Placemark'' = Some placemark"
    and "querySelector placemark ''coordinates'' = Some coordinatesElement"
    and "querySelector placemark ''TimeStamp when'' = Some timestampElement"
  shows "error (fetchGarminLocation env b s) = None
       \<or> error (fetchGarminLocation env b s)
            = Some ''Failed to fetch location: Invalid coordinates in KML''"
proof (cases "isNaN (element_at (map Number (split CHR '','' (trim (textContent coordinatesElement)))) 0)
       \<or> isNaN (element_at (map Number (split CHR '','' (trim (textContent coordinatesElement)))) 1)")
  case True
  from tick_throws [OF assms(1,2) try_invalid_coordinates [OF assms(3-7) True, of s]]
  show ?thesis by simp
next
  case False
  obtain r' s' where tried: "fetchGarminLocation_try env b mid s = (r', s')"
    by (cases "fetchGarminLocation_try env b mid s")
  have "r' = None"
    using tried False assms(3-7)
    by (auto simp: fetchGarminLocation_try_def Let_def isNaN_def split: option.splits)
  with try_outcome [OF tried] have "error s' = None"
    by (auto simp: update_map_fields)
  moreover have "fetchGarminLocation env b s = s'"
    using assms(1,2) tried \<open>r' = None\<close>
    by (simp add: fetchGarminLocation_def falsy_def template_str_def)
  ultimately show ?thesis by simp
qed

section \<open>The claims\<close>

subsection \<open>C1: the tracking history is append-only\<close>



subsection \<open>C2: the exported configuration has no feed identifier\<close>

text \<open>
  C2. Whatever the environment variables hold, the object the configuration module
  exports (when the module loads at all) has no \<open>mapshareId\<close> property. With it,
  every tick takes the branch that reports
  \<open>MapShare ID not configured in environment\<close>, and neither a tick nor a run of
  ticks makes a network request.
\<close>

theorem exported_environment_has_no_feed_id:
  assumes "environment penv = Inr cfg"
  shows "map_of (garmin cfg) ''mapshareId'' = None
       \<and> fetchGarminLocation cfg b s =
           s\<lparr>error := Some ''MapShare ID not configured in environment''\<rparr>
       \<and> requests (fetchGarminLocation cfg b s) = requests s
       \<and> requests (sync_loop cfg bs s) = requests s"
proof -
  from environment_garmin [OF assms] obtain url
    where "garmin cfg = [(''mapshareBaseUrl'', url)]" ..
  then have none: "map_of (garmin cfg) ''mapshareId'' = None" by simp
  then have unset: "falsy (map_of (garmin cfg) ''mapshareId'')" by (simp add: falsy_def)
  show ?thesis
    using none tick_unconfigured [OF unset, of b s] run_unconfigured [OF unset, of bs s]
    by simp
qed

text \<open>
  An environment that even sets a variable named after the identifier: the exported
  object still lacks the property, and a run of three ticks requests nothing.
\<close>

theorem exported_environment_has_no_feed_id_witness:
  "environment [(''MAPBOX_TOKEN'', ''pk.test''), (''GARMIN_MAPSHARE_ID'', ''hiker'')]
     = Inr \<lparr>mapbox = [(''token'', ''pk.test'')],
            garmin = [(''mapshareBaseUrl'', ''https://share.garmin.com/feed/share'')]\<rparr>
   \<and> fetchGarminLocation
         \<lparr>mapbox = [(''token'', ''pk.test'')],
          garmin = [(''mapshareBaseUrl'', ''https://share.garmin.com/feed/share'')]\<rparr>
         spec_example initial_app
       = initial_app\<lparr>error := Some ''MapShare ID not configured in environment''\<rparr>
   \<and> requests (sync_loop
         \<lparr>mapbox = [(''token'', ''pk.test'')],
          garmin = [(''mapshareBaseUrl'', ''https://share.garmin.com/feed/share'')]\<rparr>
         mixed_run initial_app) = []"
proof -
  have e: "environment [(''MAPBOX_TOKEN'', ''pk.test''), (''GARMIN_MAPSHARE_ID'', ''hiker'')]
     = Inr \<lparr>mapbox = [(''token'', ''pk.test'')],
            garmin = [(''mapshareBaseUrl'', ''https://share.garmin.com/feed/share'')]\<rparr>"
    by (simp add: environment_def getEnv_eq falsy_def or_empty_def)
  have r: "requests initial_app = []" by (simp add: initial_app_def)
  show ?thesis
    using exported_environment_has_no_feed_id [OF e, of spec_example initial_app mixed_run] e r
    by simp
qed

subsection \<open>C3: a valid feed document sets the location\<close>

text \<open>
  C3. When the feed identifier is configured, the fetch succeeds, and the first
  \<open>Placemark\<close> of the document has a \<open>coordinates\<close> element whose trimmed text splits
  at commas into a longitude, a latitude and possibly more, both numeric, and a
  \<open>TimeStamp when\<close> element, the tick stores the first component as \<open>lng\<close>, the
  second as \<open>lat\<close> and the date made from the \<open>when\<close> text as \<open>timestamp\<close>, and
  clears the error.
\<close>

theorem valid_feed_sets_location:
  assumes "map_of (garmin env) ''mapshareId'' = Some mid" "mid \<noteq> []"
    and "fetch_url b (feed_url env mid) = Inr r" "ok r"
    and "querySelector_document (parseFromString b (text_body r)) ''Placemark'' = Some placemark"
    and "querySelector placemark ''coordinates'' = Some coordinatesElement"
    and "querySelector placemark ''TimeStamp when'' = Some timestampElement"
    and "split CHR '','' (trim (textContent coordinatesElement)) = lon # la # rest"
    and "Number lon \<noteq> NaN" "Number la \<noteq> NaN"
  shows "currentLocation (fetchGarminLocation env b s) =
           \<lparr>lat = Number la, lng = Number lon,
             timestamp = Some (new_Date b (textContent timestampElement))\<rparr>
       \<and> error (fetchGarminLocation env b s) = None"
  using tick_success [OF assms, of s] by (simp add: update_map_fields)

text \<open>
  The example of the specification: the body with coordinates \<open>-74.5,40.1,0\<close> and
  time 2024-01-01T00:00:00Z gives latitude 40.1, longitude -74.5 and that instant.
\<close>

theorem valid_feed_sets_location_witness:
  "fetch_url spec_example (feed_url configured ''hiker'') =
     Inr \<lparr>ok = True,
          text_body = ''<Placemark><coordinates>-74.5,40.1,0</coordinates><TimeStamp><when>2024-01-01T00:00:00Z</when></TimeStamp></Placemark>''\<rparr>
   \<and> currentLocation (fetchGarminLocation configured spec_example initial_app) =
        \<lparr>lat = Fin (401 / 10), lng = Fin (- 149 / 2),
          timestamp = Some (DateAt 1704067200000)\<rparr>
   \<and> error (fetchGarminLocation configured spec_example initial_app) = None"
proof -
  let ?c = "''-74.5,40.1,0''" and ?w = "''2024-01-01T00:00:00Z''"
  let ?r = "\<lparr>ok = True, text_body = placemark_body ?c ?w\<rparr>"
  have fetched: "fetch_url (feed ?c ?w) (feed_url configured ''hiker'') = Inr ?r"
    by (rule feed_reaches(1))
  have pm: "querySelector_document (parseFromString (feed ?c ?w) (text_body ?r)) ''Placemark''
              = Some ([], placemark_doc ?c ?w)"
    by (simp add: feed_reaches(2))
  have parts: "split CHR '','' (trim (textContent ([''Placemark''], Element ''coordinates'' [Text ?c])))
                 = [''-74.5'', ''40.1'', ''0'']"
    by code_simp
  have lon: "Number ''-74.5'' = Fin (- 149 / 2)" and la: "Number ''40.1'' = Fin (401 / 10)"
    by code_simp+
  have date: "new_Date (feed ?c ?w) (textContent ([''TimeStamp'', ''Placemark''], Element ''when'' [Text ?w]))
                = DateAt 1704067200000"
    by code_simp
  have body: "placemark_body ?c ?w =
     ''<Placemark><coordinates>-74.5,40.1,0</coordinates><TimeStamp><when>2024-01-01T00:00:00Z</when></TimeStamp></Placemark>''"
    by (simp add: placemark_body_def)
  from valid_feed_sets_location [OF configured_id(1) _ fetched _ pm feed_reaches(3) feed_reaches(4) parts,
      of initial_app]
  show ?thesis
    using fetched by (simp add: lon la date body spec_example_def)
qed

subsection \<open>C4: an unset feed identifier\<close>

text \<open>
  C4. When the feed identifier is unset (\<open>undefined\<close> or empty) at the start of a
  tick, the tick reports the error \<open>MapShare ID not configured\<close> (the message goes on
  with \<open>in environment\<close>), makes no request, leaves the location, the map, the
  markers and the tracking flag as they were, and the loop goes on with the next tick.
\<close>

theorem unset_feed_identifier:
  assumes "falsy (map_of (garmin env) ''mapshareId'')"
  shows "error (fetchGarminLocation env b s)
           = Some (''MapShare ID not configured'' @ '' in environment'')
       \<and> requests (fetchGarminLocation env b s) = requests s
       \<and> currentLocation (fetchGarminLocation env b s) = currentLocation s
       \<and> map_handle (fetchGarminLocation env b s) = map_handle s
       \<and> markers (fetchGarminLocation env b s) = markers s
       \<and> isTracking (fetchGarminLocation env b s) = isTracking s
       \<and> sync_loop env (b # bs) s = sync_loop env bs (fetchGarminLocation env b s)"
  using tick_unconfigured [OF assms, of b s] by simp

text \<open>
  A configuration whose identifier is the empty string, on a loaded map.
\<close>

theorem unset_feed_identifier_witness:
  "falsy (map_of (garmin \<lparr>mapbox = [], garmin = [(''mapshareId'', '''')]\<rparr>) ''mapshareId'')
   \<and> error (fetchGarminLocation \<lparr>mapbox = [], garmin = [(''mapshareId'', '''')]\<rparr>
              spec_example (on_load initial_app))
        = Some ''MapShare ID not configured in environment''
   \<and> requests (fetchGarminLocation \<lparr>mapbox = [], garmin = [(''mapshareId'', '''')]\<rparr>
              spec_example (on_load initial_app)) = []"
proof -
  have f: "falsy (map_of (garmin \<lparr>mapbox = [], garmin = [(''mapshareId'', '''')]\<rparr>) ''mapshareId'')"
    by (simp add: falsy_def)
  have r: "requests (on_load initial_app) = []"
    by (simp add: on_load_def initial_app_def Let_def)
  show ?thesis
    using unset_feed_identifier [OF f, of spec_example "on_load initial_app"] f r by simp
qed

subsection \<open>C5: non-numeric coordinates\<close>




subsection \<open>C6: a Placemark without coordinates or without a timestamp\<close>

text \<open>
  C6, as the code has it. When the first \<open>Placemark\<close> of the feed document has no
  \<open>coordinates\<close> element below it, or no \<open>when\<close> element below it that has a
  \<open>TimeStamp\<close> among its ancestors, inside the \<open>Placemark\<close> or above it, the tick
  reports the malformed-feed error (\<open>Invalid KML data structure\<close>) and leaves the
  location, the map and the markers as they were. When both are there, the tick does
  not report that error.
\<close>

theorem malformed_feed_rejected:
  assumes "map_of (garmin env) ''mapshareId'' = Some mid" "mid \<noteq> []"
    and "fetch_url b (feed_url env mid) = Inr r" "ok r"
    and "querySelector_document (parseFromString b (text_body r)) ''Placemark'' = Some placemark"
  shows "((\<forall>d \<in> set (descendants placemark). tagName d \<noteq> ''coordinates'')
          \<or> (\<forall>d \<in> set (descendants placemark).
                \<not> (tagName d = ''when'' \<and> ''TimeStamp'' \<in> set (fst d)))
         \<longrightarrow> error (fetchGarminLocation env b s)
                = Some ''Failed to fetch location: Invalid KML data structure''
             \<and> currentLocation (fetchGarminLocation env b s) = currentLocation s
             \<and> map_handle (fetchGarminLocation env b s) = map_handle s
             \<and> markers (fetchGarminLocation env b s) = markers s)
       \<and> ((\<exists>d \<in> set (descendants placemark). tagName d = ''coordinates'')
          \<and> (\<exists>d \<in> set (descendants placemark).
                tagName d = ''when'' \<and> ''TimeStamp'' \<in> set (fst d))
         \<longrightarrow> error (fetchGarminLocation env b s)
                \<noteq> Some ''Failed to fetch location: Invalid KML data structure'')"
proof (intro conjI impI)
  assume lacks: "(\<forall>d \<in> set (descendants placemark). tagName d \<noteq> ''coordinates'')
          \<or> (\<forall>d \<in> set (descendants placemark).
                \<not> (tagName d = ''when'' \<and> ''TimeStamp'' \<in> set (fst d)))"
  then have none: "querySelector placemark ''coordinates'' = None
      \<or> querySelector placemark ''TimeStamp when'' = None"
    by (simp add: querySelector_None matches_coordinates matches_TimeStamp_when)
  have tick: "fetchGarminLocation env b s =
      s\<lparr>requests := requests s @ [feed_url env mid],
        console := console s @ [''Error fetching Garmin location: '' @ ''Invalid KML data structure''],
        error := Some (''Failed to fetch location: '' @ ''Invalid KML data structure'')\<rparr>"
    using tick_throws [OF assms(1,2) try_invalid_structure [OF assms(3-5) none, of s]]
    by simp
  show "error (fetchGarminLocation env b s)
          = Some ''Failed to fetch location: Invalid KML data structure''"
    and "currentLocation (fetchGarminLocation env b s) = currentLocation s"
    and "map_handle (fetchGarminLocation env b s) = map_handle s"
    and "markers (fetchGarminLocation env b s) = markers s"
    by (simp_all add: tick)
next
  assume has: "(\<exists>d \<in> set (descendants placemark). tagName d = ''coordinates'')
          \<and> (\<exists>d \<in> set (descendants placemark).
                tagName d = ''when'' \<and> ''TimeStamp'' \<in> set (fst d))"
  then have "querySelector placemark ''coordinates'' \<noteq> None"
    and "querySelector placemark ''TimeStamp when'' \<noteq> None"
    by (simp_all add: querySelector_None matches_coordinates matches_TimeStamp_when)
  then obtain ce te where "querySelector placemark ''coordinates'' = Some ce"
    and "querySelector placemark ''TimeStamp when'' = Some te" by auto
  from tick_both_found [OF assms this, of s]
  show "error (fetchGarminLocation env b s)
          \<noteq> Some ''Failed to fetch location: Invalid KML data structure''"
    by auto
qed

text \<open>
  A \<open>Placemark\<close> that holds only a name is rejected; the example feed of the
  specification is not.
\<close>

theorem malformed_feed_rejected_witness:
  "map tagName (descendants ([], Element ''Placemark'' [Element ''name'' [Text ''hiker'']]))
     = [''name'']
   \<and> error (fetchGarminLocation configured
              (serving ''<Placemark><name>hiker</name></Placemark>''
                 (Element ''Placemark'' [Element ''name'' [Text ''hiker'']]))
              (on_load initial_app))
        = Some ''Failed to fetch location: Invalid KML data structure''
   \<and> currentLocation (fetchGarminLocation configured
              (serving ''<Placemark><name>hiker</name></Placemark>''
                 (Element ''Placemark'' [Element ''name'' [Text ''hiker'']]))
              (on_load initial_app)) = initial_location
   \<and> error (fetchGarminLocation configured spec_example (on_load initial_app))
        \<noteq> Some ''Failed to fetch location: Invalid KML data structure''"
proof -
  let ?body = "''<Placemark><name>hiker</name></Placemark>''"
  let ?doc = "Element ''Placemark'' [Element ''name'' [Text ''hiker'']]"
  let ?r = "\<lparr>ok = True, text_body = ?body\<rparr>"
  let ?s = "on_load initial_app"
  let ?c = "''-74.5,40.1,0''" and ?w = "''2024-01-01T00:00:00Z''"
  have fetched: "fetch_url (serving ?body ?doc) (feed_url configured ''hiker'') = Inr ?r"
    by (simp add: serving_def)
  have pm: "querySelector_document (parseFromString (serving ?body ?doc) (text_body ?r)) ''Placemark''
              = Some ([], ?doc)"
    by (simp add: serving_def querySelector_document_def matches_Placemark)
  have lacks: "\<forall>d \<in> set (descendants ([], ?doc)). tagName d \<noteq> ''coordinates''"
    by simp
  have loc: "currentLocation ?s = initial_location"
    by (simp add: on_load_def initial_app_def Let_def)
  have pm2: "querySelector_document (parseFromString (feed ?c ?w)
               (text_body \<lparr>ok = True, text_body = placemark_body ?c ?w\<rparr>)) ''Placemark''
              = Some ([], placemark_doc ?c ?w)"
    by (simp add: feed_reaches(2))
  have has: "(\<exists>d \<in> set (descendants ([], placemark_doc ?c ?w)). tagName d = ''coordinates'')
          \<and> (\<exists>d \<in> set (descendants ([], placemark_doc ?c ?w)).
                tagName d = ''when'' \<and> ''TimeStamp'' \<in> set (fst d))"
    by (simp add: placemark_doc_def)
  have r1: "error (fetchGarminLocation configured (serving ?body ?doc) ?s)
              = Some ''Failed to fetch location: Invalid KML data structure''
          \<and> currentLocation (fetchGarminLocation configured (serving ?body ?doc) ?s)
              = initial_location"
    using malformed_feed_rejected [OF configured_id(1) _ fetched _ pm, of ?s] lacks loc
    by simp
  have r2: "error (fetchGarminLocation configured spec_example ?s)
        \<noteq> Some ''Failed to fetch location: Invalid KML data structure''"
    using malformed_feed_rejected [OF configured_id(1) _ feed_reaches(1) _ pm2, of ?s] has
    by (simp add: spec_example_def)
  show ?thesis using r1 r2 by simp
qed

text \<open>
  C6 as stated fails for a \<open>Placemark\<close> that has no \<open>TimeStamp\<close> element inside it
  but lies inside one: the elements below the \<open>Placemark\<close> are \<open>coordinates\<close> and
  \<open>when\<close> only, yet the selector \<open>TimeStamp when\<close> is matched against the whole
  document, finds the \<open>when\<close> element, and the tick succeeds and stores the location.
\<close>

theorem timestamp_above_placemark_accepted:
  "querySelector_document
      (Element ''TimeStamp''
         [Element ''Placemark''
            [Element ''coordinates'' [Text ''1.0,2.0''],
             Element ''when'' [Text ''2024-01-01T00:00:00Z'']]]) ''Placemark''
     = Some ([''TimeStamp''],
             Element ''Placemark''
               [Element ''coordinates'' [Text ''1.0,2.0''],
                Element ''when'' [Text ''2024-01-01T00:00:00Z'']])
   \<and> map tagName
        (descendants
           ([''TimeStamp''],
            Element ''Placemark''
              [Element ''coordinates'' [Text ''1.0,2.0''],
               Element ''when'' [Text ''2024-01-01T00:00:00Z'']]))
       = [''coordinates'', ''when'']
   \<and> error (fetchGarminLocation configured nested_feed initial_app) = None
   \<and> currentLocation (fetchGarminLocation configured nested_feed initial_app)
       = \<lparr>lat = Fin 2, lng = Fin 1, timestamp = Some (DateAt 1704067200000)\<rparr>"
  by code_simp

subsection \<open>C7: the contract of the configuration resolver\<close>

text \<open>
  C7, as the code has it. For every key, \<open>getEnv\<close> returns the environment's string
  when it is present and not empty; when it is absent or empty and no default was
  supplied it throws the missing-variable error, which for the map token makes the
  configuration module fail to load; when it is absent or empty and a default exists it
  returns the default.
\<close>

theorem getEnv_contract:
  "(map_of env key = Some v \<and> v \<noteq> [] \<longrightarrow> getEnv env key d = Inr v)
   \<and> (falsy (map_of env key) \<longrightarrow>
        getEnv env key None = Inl (''Environment variable '' @ key @ '' is not set'')
        \<and> getEnv env key (Some dv) = Inr dv)
   \<and> (falsy (map_of env ''MAPBOX_TOKEN'') \<longrightarrow>
        environment env = Inl ''Environment variable MAPBOX_TOKEN is not set'')"
  by (auto simp: getEnv_eq environment_def falsy_def or_empty_def)

text \<open>
  A token that is set, a feed URL that is defaulted, and a missing token.
\<close>

theorem getEnv_contract_witness:
  "getEnv [(''MAPBOX_TOKEN'', ''pk.test'')] ''MAPBOX_TOKEN'' None = Inr ''pk.test''
   \<and> getEnv [(''MAPBOX_TOKEN'', ''pk.test'')] ''GARMIN_MAPSHARE_URL''
        (Some ''https://share.garmin.com/feed/share'') = Inr ''https://share.garmin.com/feed/share''
   \<and> getEnv [] ''MAPBOX_TOKEN'' None = Inl ''Environment variable MAPBOX_TOKEN is not set''
   \<and> environment [] = Inl ''Environment variable MAPBOX_TOKEN is not set''"
  using getEnv_contract [of "[(''MAPBOX_TOKEN'', ''pk.test'')]" "''MAPBOX_TOKEN''" "''pk.test''" None]
    getEnv_contract [of "[(''MAPBOX_TOKEN'', ''pk.test'')]" "''GARMIN_MAPSHARE_URL''" _ _
      "''https://share.garmin.com/feed/share''"]
    getEnv_contract [of "[]" "''MAPBOX_TOKEN''"]
  by (simp add: falsy_def)

text \<open>
  C7 as stated fails for a variable that is present with the empty string as its
  value: with a default the default is returned and not the environment's string, and
  without one the call throws.
\<close>

theorem getEnv_empty_value_not_returned:
  "map_of [(''GARMIN_MAPSHARE_URL'', '''')] ''GARMIN_MAPSHARE_URL'' = Some ''''
   \<and> getEnv [(''GARMIN_MAPSHARE_URL'', '''')] ''GARMIN_MAPSHARE_URL''
        (Some ''https://share.garmin.com/feed/share'') = Inr ''https://share.garmin.com/feed/share''
   \<and> getEnv [(''GARMIN_MAPSHARE_URL'', '''')] ''GARMIN_MAPSHARE_URL''
        (Some ''https://share.garmin.com/feed/share'') \<noteq> Inr ''''
   \<and> getEnv [(''MAPBOX_TOKEN'', '''')] ''MAPBOX_TOKEN'' None
        = Inl ''Environment variable MAPBOX_TOKEN is not set''"
  by (simp add: getEnv_eq falsy_def)

subsection \<open>C8: ticks before the map is ready\<close>

text \<open>
  C8. While the map handle is still null, a tick on a valid feed only records the
  request, stores the location and clears the error: the handle stays null, no marker
  moves, there is no tracking history, nothing is logged and no error is shown.
\<close>

theorem tick_before_map_ready:
  assumes "map_handle s = None"
    and "map_of (garmin env) ''mapshareId'' = Some mid" "mid \<noteq> []"
    and "fetch_url b (feed_url env mid) = Inr r" "ok r"
    and "querySelector_document (parseFromString b (text_body r)) ''Placemark'' = Some placemark"
    and "querySelector placemark ''coordinates'' = Some coordinatesElement"
    and "querySelector placemark ''TimeStamp when'' = Some timestampElement"
    and "split CHR '','' (trim (textContent coordinatesElement)) = lon # la # rest"
    and "Number lon \<noteq> NaN" "Number la \<noteq> NaN"
  shows "fetchGarminLocation env b s =
           s\<lparr>requests := requests s @ [feed_url env mid],
             currentLocation :=
               \<lparr>lat = Number la, lng = Number lon,
                 timestamp = Some (new_Date b (textContent timestampElement))\<rparr>,
             error := None\<rparr>
       \<and> map_handle (fetchGarminLocation env b s) = None
       \<and> markers (fetchGarminLocation env b s) = markers s
       \<and> tracking_history (fetchGarminLocation env b s) = []
       \<and> console (fetchGarminLocation env b s) = console s
       \<and> error (fetchGarminLocation env b s) = None"
  using tick_success [OF assms(2-11), of s] assms(1)
  by (simp add: update_map_no_handle tracking_history_def line_of_def)

text \<open>
  The example feed on the initial state of the component.
\<close>

theorem tick_before_map_ready_witness:
  "map_handle initial_app = None
   \<and> fetchGarminLocation configured spec_example initial_app =
       initial_app\<lparr>requests := [''https://share.garmin.com/feed/share/hiker/kml''],
         currentLocation :=
           \<lparr>lat = Fin (401 / 10), lng = Fin (- 149 / 2),
             timestamp = Some (DateAt 1704067200000)\<rparr>,
         error := None\<rparr>
   \<and> markers (fetchGarminLocation configured spec_example initial_app) = []"
proof -
  let ?c = "''-74.5,40.1,0''" and ?w = "''2024-01-01T00:00:00Z''"
  let ?r = "\<lparr>ok = True, text_body = placemark_body ?c ?w\<rparr>"
  have none: "map_handle initial_app = None" by (simp add: initial_app_def)
  have fetched: "fetch_url (feed ?c ?w) (feed_url configured ''hiker'') = Inr ?r"
    by (rule feed_reaches(1))
  have pm: "querySelector_document (parseFromString (feed ?c ?w) (text_body ?r)) ''Placemark''
              = Some ([], placemark_doc ?c ?w)"
    by (simp add: feed_reaches(2))
  have parts: "split CHR '','' (trim (textContent ([''Placemark''], Element ''coordinates'' [Text ?c])))
                 = [''-74.5'', ''40.1'', ''0'']"
    by code_simp
  have lon: "Number ''-74.5'' = Fin (- 149 / 2)" and la: "Number ''40.1'' = Fin (401 / 10)"
    by code_simp+
  have date: "new_Date (feed ?c ?w) (textContent ([''TimeStamp'', ''Placemark''], Element ''when'' [Text ?w]))
                = DateAt 1704067200000"
    by code_simp
  have st: "requests initial_app = []" "markers initial_app = []"
    by (simp_all add: initial_app_def)
  from tick_before_map_ready [OF none configured_id(1) _ fetched _ pm feed_reaches(3)
      feed_reaches(4) parts]
  show ?thesis
    by (simp add: none lon la date st configured_id(2) spec_example_def)
qed

subsection \<open>C9: an empty environment variable counts as absent\<close>

text \<open>
  C9. For a variable that is set to the empty string, \<open>getEnv\<close> returns the default
  when one is supplied and throws the missing-variable error when none is, exactly as
  it does in an environment where the variable is absent.
\<close>

theorem getEnv_empty_string_is_absent:
  assumes "map_of env key = Some []"
  shows "getEnv env key (Some d) = Inr d
       \<and> getEnv env key None = Inl (''Environment variable '' @ key @ '' is not set'')
       \<and> (map_of env' key = None \<longrightarrow> getEnv env key dv = getEnv env' key dv)"
  using assms by (simp add: getEnv_eq falsy_def)

text \<open>
  The map token set to the empty string.
\<close>

theorem getEnv_empty_string_is_absent_witness:
  "map_of [(''MAPBOX_TOKEN'', '''')] ''MAPBOX_TOKEN'' = Some []
   \<and> getEnv [(''MAPBOX_TOKEN'', '''')] ''MAPBOX_TOKEN'' (Some ''fallback'') = Inr ''fallback''
   \<and> getEnv [(''MAPBOX_TOKEN'', '''')] ''MAPBOX_TOKEN'' None
        = Inl ''Environment variable MAPBOX_TOKEN is not set''
   \<and> getEnv [(''MAPBOX_TOKEN'', '''')] ''MAPBOX_TOKEN'' None = getEnv [] ''MAPBOX_TOKEN'' None"
proof -
  have set_empty: "map_of [(''MAPBOX_TOKEN'', '''')] ''MAPBOX_TOKEN'' = Some []" by simp
  have absent: "map_of ([] :: process_env) ''MAPBOX_TOKEN'' = None" by simp
  show ?thesis
    using getEnv_empty_string_is_absent [OF set_empty, of "''fallback''" "[]" None] absent
    by auto
qed

subsection \<open>C10: the timestamp text is not validated\<close>

text \<open>
  C10. When everything else about the feed is valid and the text of the \<open>when\<close>
  element is not recognised as a date, the tick still succeeds: it clears the error and
  stores the location with an invalid date as its timestamp.
\<close>

theorem timestamp_not_validated:
  assumes "map_of (garmin env) ''mapshareId'' = Some mid" "mid \<noteq> []"
    and "fetch_url b (feed_url env mid) = Inr r" "ok r"
    and "querySelector_document (parseFromString b (text_body r)) ''Placemark'' = Some placemark"
    and "querySelector placemark ''coordinates'' = Some coordinatesElement"
    and "querySelector placemark ''TimeStamp when'' = Some timestampElement"
    and "split CHR '','' (trim (textContent coordinatesElement)) = lon # la # rest"
    and "Number lon \<noteq> NaN" "Number la \<noteq> NaN"
    and "Date_parse b (textContent timestampElement) = None"
  shows "error (fetchGarminLocation env b s) = None
       \<and> currentLocation (fetchGarminLocation env b s) =
           \<lparr>lat = Number la, lng = Number lon, timestamp = Some InvalidDate\<rparr>"
  using tick_success [OF assms(1-10), of s] assms(11)
  by (simp add: update_map_fields new_Date_def)

text \<open>
  The \<open>when\<close> text \<open>yesterday\<close>, on a state that shows an earlier error.
\<close>

theorem timestamp_not_validated_witness:
  "Date_parse (feed ''1.0,2.0'' ''yesterday'') ''yesterday'' = None
   \<and> error (fetchGarminLocation configured (feed ''1.0,2.0'' ''yesterday'')
        (initial_app\<lparr>error := Some ''Failed to fetch location: Failed to fetch location data''\<rparr>))
        = None
   \<and> currentLocation (fetchGarminLocation configured (feed ''1.0,2.0'' ''yesterday'')
        (initial_app\<lparr>error := Some ''Failed to fetch location: Failed to fetch location data''\<rparr>))
        = \<lparr>lat = Fin 2, lng = Fin 1, timestamp = Some InvalidDate\<rparr>"
proof -
  let ?c = "''1.0,2.0''" and ?w = "''yesterday''"
  let ?r = "\<lparr>ok = True, text_body = placemark_body ?c ?w\<rparr>"
  have fetched: "fetch_url (feed ?c ?w) (feed_url configured ''hiker'') = Inr ?r"
    by (rule feed_reaches(1))
  have pm: "querySelector_document (parseFromString (feed ?c ?w) (text_body ?r)) ''Placemark''
              = Some ([], placemark_doc ?c ?w)"
    by (simp add: feed_reaches(2))
  have parts: "split CHR '','' (trim (textContent ([''Placemark''], Element ''coordinates'' [Text ?c])))
                 = [''1.0'', ''2.0'']"
    by code_simp
  have lon: "Number ''1.0'' = Fin 1" and la: "Number ''2.0'' = Fin 2"
    by code_simp+
  have unparsed: "Date_parse (feed ?c ?w) ?w = None"
    by (simp add: feed_def serving_def)
  have unparsed': "Date_parse (feed ?c ?w)
      (textContent ([''TimeStamp'', ''Placemark''], Element ''when'' [Text ?w])) = None"
    by (simp add: feed_reaches(6) unparsed)
  from timestamp_not_validated [OF configured_id(1) _ fetched _ pm feed_reaches(3)
      feed_reaches(4) parts _ _ unparsed']
  show ?thesis
    by (simp add: lon la unparsed)
qed

end
